theory Spec2Isabelle
  imports Complex_Main
begin

section \<open>Python values\<close>

text \<open>
  The SDK handles decoded JSON: the backend's scan response, the scan result dictionaries it
  hands to the adapters, and the provider message lists. A decoded JSON value is one of
  Python's \<^verbatim>\<open>None\<close>, \<^verbatim>\<open>bool\<close>, \<^verbatim>\<open>int\<close>, \<^verbatim>\<open>float\<close>, \<^verbatim>\<open>str\<close>, \<^verbatim>\<open>list\<close> and \<^verbatim>\<open>dict\<close>.
  A \<^verbatim>\<open>dict\<close> is an association list read through \<open>map_of\<close>; the dictionaries the code
  builds are written in the order of the source's literals. A \<^verbatim>\<open>str\<close> is a list of
  characters, each standing for one code point below 256, so that \<open>length\<close> is Python's
  \<^verbatim>\<open>len\<close>. A \<^verbatim>\<open>float\<close> is the real number its IEEE 754 double denotes, so that
  comparing two floats, or an \<^verbatim>\<open>int\<close> with a float, is comparing real numbers; the
  non-standard JSON numbers NaN and Infinity are left out. A decimal literal denotes the
  double nearest to it, which is given below for the literals the SDK and its scenarios
  write.
\<close>

datatype json =
    JNull
  | JBool bool
  | JInt int
  | JFloat real
  | JStr string
  | JList "json list"
  | JDict "(string \<times> json) list"

type_synonym pydict = "(string \<times> json) list"

text \<open>
  The doubles of the literals \<^verbatim>\<open>0.9\<close>, \<^verbatim>\<open>0.7\<close> and \<^verbatim>\<open>0.95\<close>, as
  \<^verbatim>\<open>float.as_integer_ratio\<close> gives them. The double of \<^verbatim>\<open>0.9\<close> is above nine tenths, and
  those of \<^verbatim>\<open>0.7\<close> and \<^verbatim>\<open>0.95\<close> are below the fractions; \<^verbatim>\<open>0.75\<close>, \<^verbatim>\<open>0.5\<close> and \<^verbatim>\<open>1.0\<close>
  are doubles themselves.
\<close>

definition float_0_9 :: real where
  "float_0_9 = 8106479329266893 / 9007199254740992"

definition float_0_7 :: real where
  "float_0_7 = 3152519739159347 / 4503599627370496"

definition float_0_95 :: real where
  "float_0_95 = 4278419646001971 / 4503599627370496"

text \<open>Python's truth value of an object, as \<^verbatim>\<open>if x:\<close> and \<^verbatim>\<open>not x\<close> compute it.\<close>

fun truthy :: "json \<Rightarrow> bool" where
  "truthy JNull = False"
| "truthy (JBool b) = b"
| "truthy (JInt n) = (n \<noteq> 0)"
| "truthy (JFloat r) = (r \<noteq> 0)"
| "truthy (JStr s) = (s \<noteq> [])"
| "truthy (JList xs) = (xs \<noteq> [])"
| "truthy (JDict kvs) = (kvs \<noteq> [])"

fun type_name :: "json \<Rightarrow> string" where
  "type_name JNull = ''NoneType''"
| "type_name (JBool b) = ''bool''"
| "type_name (JInt n) = ''int''"
| "type_name (JFloat r) = ''float''"
| "type_name (JStr s) = ''str''"
| "type_name (JList xs) = ''list''"
| "type_name (JDict kvs) = ''dict''"

text \<open>\<^verbatim>\<open>d.get(k, default)\<close> and \<^verbatim>\<open>d.get(k)\<close>, whose default is \<^verbatim>\<open>None\<close>.\<close>

definition dict_get :: "pydict \<Rightarrow> string \<Rightarrow> json \<Rightarrow> json" where
  "dict_get d k dflt = (case map_of d k of None \<Rightarrow> dflt | Some v \<Rightarrow> v)"

definition dict_get_none :: "pydict \<Rightarrow> string \<Rightarrow> json" where
  "dict_get_none d k = dict_get d k JNull"

definition keys :: "pydict \<Rightarrow> string set" where
  "keys d = fst ` set d"

text \<open>
  \<^verbatim>\<open>str.lower()\<close> on code points below 256: the letters A to Z and the Latin-1 capitals
  (192 to 222, without the multiplication sign 215) move up by 32.
\<close>

definition py_lower_char :: "char \<Rightarrow> char" where
  "py_lower_char c =
     (let n = (of_char c :: nat)
      in if (65 \<le> n \<and> n \<le> 90) \<or> (192 \<le> n \<and> n \<le> 222 \<and> n \<noteq> 215)
         then char_of (n + 32) else c)"

definition py_lower :: "string \<Rightarrow> string" where
  "py_lower s = map py_lower_char s"

text \<open>\<^verbatim>\<open>s.replace("-", "_")\<close>.\<close>

definition replace_hyphens :: "string \<Rightarrow> string" where
  "replace_hyphens s = map (\<lambda>c. if c = CHR ''-'' then CHR ''_'' else c) s"

section \<open>Exceptions\<close>

text \<open>
  Three layers of failure. \<open>pyerr\<close>: what the interpreter raises on an ill-typed object.
  \<open>failure\<close>: what the three statements of a scan round trip (post, \<^verbatim>\<open>raise_for_status\<close>,
  \<^verbatim>\<open>sanitize_scan_response(response.json())\<close>) can raise, in the classes the handlers of
  \<^verbatim>\<open>_remote_scan\<close> tell apart; any other exception is kept by its \<^verbatim>\<open>str()\<close>.
  \<open>exn\<close>: what leaves an adapter. \<^verbatim>\<open>ShrikeBlockedError\<close> carries its message, \<^verbatim>\<open>threat_type\<close>,
  \<^verbatim>\<open>confidence\<close> and \<^verbatim>\<open>violations\<close>. A message is either an object passed as it is, or an
  f-string: a literal prefix followed by the interpolated object.
\<close>

datatype pyerr = AttributeError string | TypeError string

datatype failure = TimeoutException | HTTPStatusError nat | OtherException string

datatype message = Msg json | MsgFormat string json

datatype exn =
    PyError pyerr
  | ShrikeScanError string
  | ShrikeBlockedError message json json json

fun pyerr_str :: "pyerr \<Rightarrow> string" where
  "pyerr_str (AttributeError m) = m"
| "pyerr_str (TypeError m) = m"

text \<open>The apostrophe of Python's messages.\<close>

definition apostrophe :: string where
  "apostrophe = [CHR 0x27]"

definition quoted :: "string \<Rightarrow> string" where
  "quoted s = apostrophe @ s @ apostrophe"

definition no_attribute :: "json \<Rightarrow> string \<Rightarrow> pyerr" where
  "no_attribute v a =
     AttributeError (quoted (type_name v) @ '' object has no attribute '' @ quoted a)"

definition not_supported :: "json \<Rightarrow> pyerr" where
  "not_supported v =
     TypeError (quoted ''>='' @ '' not supported between instances of ''
                @ quoted (type_name v) @ '' and '' @ quoted ''float'')"

section \<open>The verdict sanitizer (sanitizer.py)\<close>

definition THREAT_TYPE_MAP :: "(string \<times> string) list" where
  "THREAT_TYPE_MAP =
  [
   (''prompt_injection'', ''prompt_injection''),
   (''injection'', ''prompt_injection''),
   (''inject'', ''prompt_injection''),
   (''instruction_override'', ''prompt_injection''),
   (''role_hijacking'', ''prompt_injection''),
   (''context_manipulation'', ''prompt_injection''),
   (''token_manipulation'', ''prompt_injection''),
   (''indirect_injection'', ''prompt_injection''),
   (''context_poisoning'', ''prompt_injection''),
   (''function_injection'', ''prompt_injection''),
   (''memory_injection'', ''prompt_injection''),
   (''topic_mismatch'', ''prompt_injection''),
   (''jailbreak'', ''jailbreak''),
   (''jailbreak_attempt'', ''jailbreak''),
   (''safety_bypass'', ''jailbreak''),
   (''roleplay'', ''jailbreak''),
   (''hypothetical'', ''jailbreak''),
   (''completion_baiting'', ''jailbreak''),
   (''override'', ''jailbreak''),
   (''manipulate'', ''jailbreak''),
   (''tonality_drift_profanity'', ''jailbreak''),
   (''tonality_drift_casual'', ''jailbreak''),
   (''tonality_drift_hostile'', ''jailbreak''),
   (''system_prompt_leak'', ''system_prompt_leak''),
   (''system_prompt_extraction'', ''system_prompt_leak''),
   (''data_exfiltration'', ''data_exfiltration''),
   (''exfiltration'', ''data_exfiltration''),
   (''exfiltrate'', ''data_exfiltration''),
   (''extract'', ''data_exfiltration''),
   (''data_leak'', ''data_exfiltration''),
   (''information_disclosure'', ''data_exfiltration''),
   (''credential_extraction'', ''data_exfiltration''),
   (''sql_injection'', ''sql_injection''),
   (''sqli'', ''sql_injection''),
   (''tautology'', ''sql_injection''),
   (''tautology_or'', ''sql_injection''),
   (''tautology_and'', ''sql_injection''),
   (''union_injection'', ''sql_injection''),
   (''stacked_query'', ''sql_injection''),
   (''path_traversal'', ''path_traversal''),
   (''directory_traversal'', ''path_traversal''),
   (''path_violation'', ''path_traversal''),
   (''file_access'', ''path_traversal''),
   (''sensitive_path'', ''path_traversal''),
   (''sensitive_extension'', ''path_traversal''),
   (''blocked_extension'', ''path_traversal''),
   (''secrets_exposure'', ''secrets_exposure''),
   (''secrets'', ''secrets_exposure''),
   (''api_key'', ''secrets_exposure''),
   (''credential'', ''secrets_exposure''),
   (''sensitive_file'', ''secrets_exposure''),
   (''content_violation'', ''secrets_exposure''),
   (''sensitive_content'', ''secrets_exposure''),
   (''secret_key'', ''secrets_exposure''),
   (''aws_key'', ''secrets_exposure''),
   (''private_key'', ''secrets_exposure''),
   (''pii_exposure'', ''pii_exposure''),
   (''pii'', ''pii_exposure''),
   (''pii_leak'', ''pii_exposure''),
   (''personal_data'', ''pii_exposure''),
   (''pii_in_search'', ''pii_exposure''),
   (''pii_extraction'', ''pii_exposure''),
   (''ssn'', ''pii_exposure''),
   (''credit_card'', ''pii_exposure''),
   (''email_exposure'', ''pii_exposure''),
   (''phone_number'', ''pii_exposure''),
   (''unexpected_pii_leakage'', ''pii_exposure''),
   (''blocked_domain'', ''blocked_domain''),
   (''suspicious_tld'', ''blocked_domain''),
   (''suspicious_domain'', ''blocked_domain''),
   (''malicious_url'', ''blocked_domain''),
   (''toxicity'', ''toxicity''),
   (''harmful_content'', ''toxicity''),
   (''malicious_content'', ''malicious_code''),
   (''malicious_code'', ''malicious_code''),
   (''reverse_shell'', ''malicious_code''),
   (''web_shell'', ''malicious_code''),
   (''fork_bomb'', ''malicious_code''),
   (''crypto_miner'', ''malicious_code''),
   (''persistence'', ''malicious_code''),
   (''shell_injection'', ''malicious_code''),
   (''harmful_intent'', ''harmful_intent''),
   (''dangerous_request'', ''harmful_intent''),
   (''social_engineering'', ''social_engineering''),
   (''emotional'', ''social_engineering''),
   (''authority_claim'', ''social_engineering''),
   (''privilege_escalation'', ''privilege_escalation''),
   (''destructive_operation'', ''destructive_operation''),
   (''scan_error'', ''scan_error''),
   (''size_limit_exceeded'', ''size_limit_exceeded''),
   (''size_limit'', ''size_limit_exceeded''),
   (''timeout'', ''scan_error'')
  ]"

definition THREAT_GUIDANCE :: "(string \<times> string) list" where
  "THREAT_GUIDANCE =
  [
   (''prompt_injection'', ''This prompt contains patterns consistent with instruction override attempts.''),
   (''jailbreak'', ''This prompt attempts to bypass safety guidelines. The request has been blocked.''),
   (''system_prompt_leak'', ''The response contains system prompt disclosure. The response has been blocked.''),
   (''data_exfiltration'', ''This prompt may attempt to extract sensitive information.''),
   (''sql_injection'', ''This query contains potentially dangerous SQL patterns.''),
   (''path_traversal'', ''This file path attempts to access directories outside the allowed scope.''),
   (''secrets_exposure'', ''This content contains patterns matching API keys, tokens, or credentials.''),
   (''pii_exposure'', ''This content contains personally identifiable information.''),
   (''blocked_domain'', ''This web search targets a restricted domain.''),
   (''toxicity'', ''This content contains potentially harmful or inappropriate language.''),
   (''malicious_code'', ''This content contains patterns associated with malicious code.''),
   (''harmful_intent'', ''This request contains content associated with harmful intent.''),
   (''social_engineering'', ''This prompt contains social engineering patterns.''),
   (''privilege_escalation'', ''This query attempts to escalate privileges or gain unauthorized access.''),
   (''destructive_operation'', ''This query contains destructive operations. Review carefully.''),
   (''scan_error'', ''The security scan could not be completed. Blocked as precaution.''),
   (''size_limit_exceeded'', ''The content exceeds the maximum allowed size.''),
   (''unknown'', ''A security concern was detected. Please review the content.'')
  ]"

definition THREAT_SEVERITY :: "(string \<times> string) list" where
  "THREAT_SEVERITY =
  [
   (''prompt_injection'', ''high''),
   (''jailbreak'', ''high''),
   (''system_prompt_leak'', ''high''),
   (''data_exfiltration'', ''high''),
   (''sql_injection'', ''critical''),
   (''path_traversal'', ''high''),
   (''secrets_exposure'', ''critical''),
   (''pii_exposure'', ''high''),
   (''blocked_domain'', ''medium''),
   (''toxicity'', ''medium''),
   (''malicious_code'', ''critical''),
   (''harmful_intent'', ''high''),
   (''social_engineering'', ''medium''),
   (''privilege_escalation'', ''critical''),
   (''destructive_operation'', ''critical''),
   (''scan_error'', ''medium''),
   (''size_limit_exceeded'', ''low''),
   (''unknown'', ''medium'')
  ]"

definition INTERNAL_FIELDS :: "string set" where
  "INTERNAL_FIELDS =
     {''detected_by'', ''policy_id'', ''policy_name'', ''matched_pattern'', ''matched_text'',
      ''pattern'', ''scan_stage'', ''ai_reasoning'', ''llm_analysis'', ''performance_metrics'',
      ''performance''}"

text \<open>\<^verbatim>\<open>table.get(k, default)\<close> on a table of strings.\<close>

definition table_get :: "(string \<times> string) list \<Rightarrow> string \<Rightarrow> string \<Rightarrow> string" where
  "table_get t k dflt = (case map_of t k of None \<Rightarrow> dflt | Some v \<Rightarrow> v)"

definition normalize_threat_type :: "json \<Rightarrow> pyerr + string" where
  "normalize_threat_type raw_type =
     (if \<not> truthy raw_type then Inr ''unknown''
      else case raw_type of
             JStr s \<Rightarrow> Inr (table_get THREAT_TYPE_MAP (replace_hyphens (py_lower s)) ''unknown'')
           | _ \<Rightarrow> Inl (no_attribute raw_type ''lower''))"

definition valid_severities :: "string set" where
  "valid_severities = {''critical'', ''high'', ''medium'', ''low''}"

definition derive_severity :: "string \<Rightarrow> json \<Rightarrow> pyerr + string" where
  "derive_severity threat_type raw_severity =
     (if truthy raw_severity then
        (case raw_severity of
           JStr s \<Rightarrow>
             if py_lower s \<in> valid_severities then Inr (py_lower s)
             else Inr (table_get THREAT_SEVERITY threat_type ''medium'')
         | _ \<Rightarrow> Inl (no_attribute raw_severity ''lower''))
      else Inr (table_get THREAT_SEVERITY threat_type ''medium''))"

text \<open>
  The number a score is compared as: \<^verbatim>\<open>bool\<close> is a subclass of \<^verbatim>\<open>int\<close>, and an \<^verbatim>\<open>int\<close> is
  compared with a \<^verbatim>\<open>float\<close> exactly. Any other object has no order with a \<^verbatim>\<open>float\<close>.
\<close>

fun as_number :: "json \<Rightarrow> real option" where
  "as_number (JBool b) = Some (if b then 1 else 0)"
| "as_number (JInt n) = Some (of_int n)"
| "as_number (JFloat r) = Some r"
| "as_number _ = None"

definition bucket_confidence :: "json \<Rightarrow> pyerr + string" where
  "bucket_confidence score =
     (if score = JNull then Inr ''medium''
      else case as_number score of
             None \<Rightarrow> Inl (not_supported score)
           | Some x \<Rightarrow>
               if x \<ge> float_0_9 then Inr ''high''
               else if x \<ge> float_0_7 then Inr ''medium''
               else Inr ''low'')"

definition sanitize_scan_response :: "pydict \<Rightarrow> pyerr + pydict" where
  "sanitize_scan_response raw =
     (let safe = dict_get raw ''safe'' (JBool True) in
      if truthy safe then
        Inr [(''safe'', JBool True), (''reason'', dict_get raw ''reason'' (JStr ''''))]
      else
        let raw_threat_type = dict_get raw ''threat_type'' (JStr ''unknown'') in
        case normalize_threat_type raw_threat_type of
          Inl e \<Rightarrow> Inl e
        | Inr threat_type \<Rightarrow>
            (case bucket_confidence (dict_get_none raw ''confidence'') of
               Inl e \<Rightarrow> Inl e
             | Inr confidence \<Rightarrow>
                 (case derive_severity threat_type (dict_get_none raw ''severity'') of
                    Inl e \<Rightarrow> Inl e
                  | Inr severity \<Rightarrow>
                      let guidance = table_get THREAT_GUIDANCE threat_type
                                       (table_get THREAT_GUIDANCE ''unknown'' '''')
                      in Inr [(''safe'', JBool False),
                              (''threat_type'', JStr threat_type),
                              (''severity'', JStr severity),
                              (''confidence'', JStr confidence),
                              (''reason'', dict_get raw ''reason'' (JStr guidance)),
                              (''guidance'', JStr guidance)])))"

section \<open>Strings\<close>

text \<open>\<^verbatim>\<open>str(n)\<close> of a non-negative \<^verbatim>\<open>int\<close>: its decimal digits.\<close>

fun str_of_nat :: "nat \<Rightarrow> string" where
  "str_of_nat n =
     (if n < 10 then [''0123456789'' ! n]
      else str_of_nat (n div 10) @ [''0123456789'' ! (n mod 10)])"

declare str_of_nat.simps [simp del]

text \<open>\<^verbatim>\<open>sep.join(xs)\<close> on strings.\<close>

fun join_strs :: "string \<Rightarrow> string list \<Rightarrow> string" where
  "join_strs sep [] = []"
| "join_strs sep [x] = x"
| "join_strs sep (x # y # ys) = x @ sep @ join_strs sep (y # ys)"

text \<open>
  \<^verbatim>\<open>sep.join(xs)\<close> on a list of objects: the first item that is not a \<^verbatim>\<open>str\<close> raises
  \<^verbatim>\<open>TypeError\<close>, which names its index and its type.
\<close>

fun str_items :: "nat \<Rightarrow> json list \<Rightarrow> pyerr + string list" where
  "str_items i [] = Inr []"
| "str_items i (JStr s # xs) =
     (case str_items (Suc i) xs of Inl e \<Rightarrow> Inl e | Inr ss \<Rightarrow> Inr (s # ss))"
| "str_items i (x # xs) =
     Inl (TypeError (''sequence item '' @ str_of_nat i @ '': expected str instance, ''
                     @ type_name x @ '' found''))"

definition py_join :: "string \<Rightarrow> json list \<Rightarrow> pyerr + string" where
  "py_join sep xs = (case str_items 0 xs of Inl e \<Rightarrow> Inl e | Inr ss \<Rightarrow> Inr (join_strs sep ss))"

definition newline :: string where
  "newline = [CHR 0x0A]"

text \<open>
  \<^verbatim>\<open>str.strip()\<close>: the white space among the code points below 256 is 9 to 13, 28 to 32,
  133 and 160.
\<close>

definition py_isspace :: "char \<Rightarrow> bool" where
  "py_isspace c =
     (let n = (of_char c :: nat)
      in (9 \<le> n \<and> n \<le> 13) \<or> (28 \<le> n \<and> n \<le> 32) \<or> n = 133 \<or> n = 160)"

definition py_strip :: "string \<Rightarrow> string" where
  "py_strip s = rev (dropWhile py_isspace (rev (dropWhile py_isspace s)))"

section \<open>The scan transport\<close>

text \<open>
  A scan request is the URL and the JSON payload of \<^verbatim>\<open>self._http.post\<close>; the headers, which
  carry the API key and a fresh request id, are read by nothing in the SDK and are left out.
  The backend and the network are the environment: a function from the request to what the
  post does. A post times out, fails with another exception (a connection error, say, kept
  by its \<^verbatim>\<open>str()\<close>), or returns a response: a status code and a body, which
  \<^verbatim>\<open>response.json()\<close> either decodes or rejects with an exception (kept by its \<^verbatim>\<open>str()\<close>).
  \<^verbatim>\<open>raise_for_status\<close> raises \<^verbatim>\<open>HTTPStatusError\<close> on a status that is not 2xx.
\<close>

record request =
  url :: string
  payload :: json

datatype post_result =
    Timeout
  | NetworkError string
  | Response nat "string + json"

type_synonym transport = "request \<Rightarrow> post_result"

datatype fail_mode = OPEN | CLOSED

datatype log_level = WARNING

datatype provider_call = Call string pydict

text \<open>
  What a call did: the requests it sent to the scan backend, the log records it emitted, the
  calls it delegated to the wrapped provider client, and the value it returned (\<open>Inr\<close>) or the
  exception it raised (\<open>Inl\<close>).
\<close>

record ('e, 'a) run =
  requests :: "request list"
  logged :: "(log_level \<times> string) list"
  delegated :: "provider_call list"
  result :: "'e + 'a"

text \<open>
  The three statements every scan shares:
  \<^verbatim>\<open>response = self._http.post(...); response.raise_for_status();
  return sanitize_scan_response(response.json())\<close>.
  A body that is not a \<^verbatim>\<open>dict\<close> fails at \<^verbatim>\<open>raw.get\<close>.
\<close>

definition round_trip :: "transport \<Rightarrow> request \<Rightarrow> failure + pydict" where
  "round_trip http req =
     (case http req of
        Timeout \<Rightarrow> Inl TimeoutException
      | NetworkError m \<Rightarrow> Inl (OtherException m)
      | Response status body \<Rightarrow>
          if \<not> (200 \<le> status \<and> status < 300) then Inl (HTTPStatusError status)
          else
            (case body of
               Inl m \<Rightarrow> Inl (OtherException m)
             | Inr (JDict raw) \<Rightarrow>
                 (case sanitize_scan_response raw of
                    Inl e \<Rightarrow> Inl (OtherException (pyerr_str e))
                  | Inr v \<Rightarrow> Inr v)
             | Inr v \<Rightarrow> Inl (OtherException (pyerr_str (no_attribute v ''get'')))))"

section \<open>The scan client (scanner.py)\<close>

definition MAX_CONTENT_SIZE :: nat where
  "MAX_CONTENT_SIZE = 100 * 1024"

definition check_content_size :: "string \<Rightarrow> string option \<Rightarrow> pydict option" where
  "check_content_size content context =
     (let total_size = length content
                       + (case context of
                            None \<Rightarrow> 0
                          | Some c \<Rightarrow> if c \<noteq> [] then length c else 0)
      in if total_size > MAX_CONTENT_SIZE then
           Some [(''safe'', JBool False),
                 (''reason'', JStr (''Content too large ('' @ str_of_nat (total_size div 1024)
                                    @ ''KB > '' @ str_of_nat (MAX_CONTENT_SIZE div 1024)
                                    @ ''KB limit)'')),
                 (''threat_type'', JStr ''size_limit_exceeded''),
                 (''confidence'', JFloat 1.0),
                 (''violations'',
                  JList [JDict [(''type'', JStr ''size_limit''),
                                (''description'',
                                 JStr (''Content exceeds maximum size of ''
                                       @ str_of_nat (MAX_CONTENT_SIZE div 1024) @ ''KB''))]])]
         else None)"

text \<open>\<^verbatim>\<open>ScanClient.scan\<close> and \<^verbatim>\<open>AsyncScanClient.scan\<close>, which run the same statements.\<close>

definition scan :: "string \<Rightarrow> transport \<Rightarrow> string \<Rightarrow> string option \<Rightarrow> (failure, pydict) run" where
  "scan endpoint http prompt context =
     (let payload = [(''prompt'', JStr prompt)]
                    @ (case context of
                         None \<Rightarrow> []
                       | Some c \<Rightarrow> if c \<noteq> [] then [(''context'', JStr c)] else []);
          req = \<lparr>url = endpoint @ ''/scan'', payload = JDict payload\<rparr>;
          proceed = \<lparr>requests = [req], logged = [], delegated = [],
                     result = round_trip http req\<rparr>
      in case check_content_size prompt context of
           None \<Rightarrow> proceed
         | Some size_result \<Rightarrow>
             if truthy (JDict size_result) then
               \<lparr>requests = [], logged = [], delegated = [], result = Inr size_result\<rparr>
             else proceed)"

section \<open>The adapters (anthropic_client.py, async_client.py)\<close>

record client =
  shrike_endpoint :: string
  fail_mode :: fail_mode

text \<open>
  \<^verbatim>\<open>_remote_scan\<close>, the same in \<^verbatim>\<open>ShrikeAnthropic\<close>, \<^verbatim>\<open>ShrikeAsyncAnthropic\<close> and
  \<^verbatim>\<open>ShrikeAsyncOpenAI\<close>: the round trip inside \<^verbatim>\<open>try\<close>, and the three handlers.
  \<open>scan_request\<close> is what it posts: \<^verbatim>\<open>f"{self._shrike_endpoint}/scan"\<close> and
  \<^verbatim>\<open>json={"prompt": prompt}\<close>.
\<close>

definition scan_request :: "client \<Rightarrow> string \<Rightarrow> request" where
  "scan_request cl prompt =
     \<lparr>url = shrike_endpoint cl @ ''/scan'', payload = JDict [(''prompt'', JStr prompt)]\<rparr>"

definition remote_scan :: "client \<Rightarrow> transport \<Rightarrow> string \<Rightarrow> (exn, pydict) run" where
  "remote_scan cl http prompt =
     (let req = scan_request cl prompt;
          finish = (\<lambda>lg r. \<lparr>requests = [req], logged = lg, delegated = [], result = r\<rparr>)
      in case round_trip http req of
           Inr v \<Rightarrow> finish [] (Inr v)
         | Inl TimeoutException \<Rightarrow>
             if fail_mode cl = OPEN then
               finish [(WARNING, ''Scan request timed out, failing open (allowing request)'')]
                    (Inr [(''safe'', JBool True),
                          (''reason'', JStr ''Scan timeout, failing open'')])
             else
               finish [] (Inl (ShrikeScanError
                               (''Scan request timed out and fail_mode is '' @ quoted ''closed'')))
         | Inl (HTTPStatusError status_code) \<Rightarrow>
             if fail_mode cl = OPEN then
               finish [] (Inr [(''safe'', JBool True),
                             (''reason'', JStr (''Scan API error: '' @ str_of_nat status_code))])
             else
               finish [] (Inl (ShrikeScanError
                               (''Scan API returned error: '' @ str_of_nat status_code)))
         | Inl (OtherException m) \<Rightarrow>
             if fail_mode cl = OPEN then
               finish [] (Inr [(''safe'', JBool True), (''reason'', JStr (''Scan error: '' @ m))])
             else
               finish [] (Inl (ShrikeScanError (''Scan failed: '' @ m))))"

text \<open>
  \<^verbatim>\<open>ShrikeAnthropic._extract_user_content\<close> (and the same method of \<^verbatim>\<open>ShrikeAsyncAnthropic\<close>).
  The two loops append to \<^verbatim>\<open>user_texts\<close>, the accumulator; \<^verbatim>\<open>block.get("text", "")\<close> may be
  any object.
\<close>

fun anthropic_blocks :: "json list \<Rightarrow> json list \<Rightarrow> json list" where
  "anthropic_blocks [] user_texts = user_texts"
| "anthropic_blocks (JDict block # rest) user_texts =
     (if dict_get_none block ''type'' = JStr ''text''
      then anthropic_blocks rest (user_texts @ [dict_get block ''text'' (JStr '''')])
      else anthropic_blocks rest user_texts)"
| "anthropic_blocks (JStr block # rest) user_texts =
     anthropic_blocks rest (user_texts @ [JStr block])"
| "anthropic_blocks (block # rest) user_texts = anthropic_blocks rest user_texts"

fun anthropic_messages :: "pydict list \<Rightarrow> json list \<Rightarrow> json list" where
  "anthropic_messages [] user_texts = user_texts"
| "anthropic_messages (msg # rest) user_texts =
     (if dict_get_none msg ''role'' \<noteq> JStr ''user'' then anthropic_messages rest user_texts
      else case dict_get_none msg ''content'' of
             JStr content \<Rightarrow> anthropic_messages rest (user_texts @ [JStr content])
           | JList content \<Rightarrow> anthropic_messages rest (anthropic_blocks content user_texts)
           | _ \<Rightarrow> anthropic_messages rest user_texts)"

definition anthropic_extract_user_content :: "pydict list \<Rightarrow> pyerr + string" where
  "anthropic_extract_user_content messages = py_join newline (anthropic_messages messages [])"

text \<open>
  \<^verbatim>\<open>ShrikeAsyncOpenAI._extract_user_content\<close>: the inner loop has the one branch, for a
  \<^verbatim>\<open>dict\<close> tagged \<^verbatim>\<open>"text"\<close>.
\<close>

fun openai_parts :: "json list \<Rightarrow> json list \<Rightarrow> json list" where
  "openai_parts [] user_contents = user_contents"
| "openai_parts (JDict part # rest) user_contents =
     (if dict_get_none part ''type'' = JStr ''text''
      then openai_parts rest (user_contents @ [dict_get part ''text'' (JStr '''')])
      else openai_parts rest user_contents)"
| "openai_parts (part # rest) user_contents = openai_parts rest user_contents"

fun openai_messages :: "pydict list \<Rightarrow> json list \<Rightarrow> json list" where
  "openai_messages [] user_contents = user_contents"
| "openai_messages (msg # rest) user_contents =
     (if dict_get_none msg ''role'' = JStr ''user'' then
        (case dict_get_none msg ''content'' of
           JStr content \<Rightarrow> openai_messages rest (user_contents @ [JStr content])
         | JList content \<Rightarrow> openai_messages rest (openai_parts content user_contents)
         | _ \<Rightarrow> openai_messages rest user_contents)
      else openai_messages rest user_contents)"

definition openai_extract_user_content :: "pydict list \<Rightarrow> pyerr + string" where
  "openai_extract_user_content messages = py_join newline (openai_messages messages [])"

text \<open>
  \<^verbatim>\<open>_scan_messages\<close>, the same in the three classes but for the extractor it calls. An
  exception of the extractor is outside every \<^verbatim>\<open>try\<close> and leaves the adapter as it is.
\<close>

definition scan_messages ::
  "(pydict list \<Rightarrow> pyerr + string) \<Rightarrow> client \<Rightarrow> transport \<Rightarrow> pydict list \<Rightarrow> (exn, pydict) run" where
  "scan_messages extract cl http messages =
     (case extract messages of
        Inl e \<Rightarrow> \<lparr>requests = [], logged = [], delegated = [], result = Inl (PyError e)\<rparr>
      | Inr user_content \<Rightarrow>
          if py_strip user_content = [] then
            \<lparr>requests = [], logged = [], delegated = [],
             result = Inr [(''safe'', JBool True), (''reason'', JStr ''No user content to scan'')]\<rparr>
          else remote_scan cl http user_content)"

definition anthropic_scan_messages :: "client \<Rightarrow> transport \<Rightarrow> pydict list \<Rightarrow> (exn, pydict) run" where
  "anthropic_scan_messages = scan_messages anthropic_extract_user_content"

definition openai_scan_messages :: "client \<Rightarrow> transport \<Rightarrow> pydict list \<Rightarrow> (exn, pydict) run" where
  "openai_scan_messages = scan_messages openai_extract_user_content"

text \<open>
  \<^verbatim>\<open>ShrikeBlockedError.__init__\<close> stores \<^verbatim>\<open>violations or []\<close>; a caller that passes no
  violations passes \<^verbatim>\<open>None\<close>.
\<close>

definition blocked_error :: "message \<Rightarrow> json \<Rightarrow> json \<Rightarrow> json \<Rightarrow> exn" where
  "blocked_error msg threat_type confidence violations =
     ShrikeBlockedError msg threat_type confidence
       (if truthy violations then violations else JList [])"

text \<open>
  The scan, the block decision and the delegation that every entry point runs, in this order.
  \<open>block\<close> builds the entry point's \<^verbatim>\<open>ShrikeBlockedError\<close> from the scan result, \<open>call\<close> is the
  call it delegates, and \<open>provider\<close> is the wrapped client, opaque.
\<close>

definition guarded ::
  "(exn, pydict) run \<Rightarrow> (pydict \<Rightarrow> exn) \<Rightarrow> provider_call \<Rightarrow> (provider_call \<Rightarrow> 'r) \<Rightarrow> (exn, 'r) run" where
  "guarded scanned block call provider =
     (case result scanned of
        Inl e \<Rightarrow>
          \<lparr>requests = requests scanned, logged = logged scanned, delegated = [], result = Inl e\<rparr>
      | Inr scan_result \<Rightarrow>
          if \<not> truthy (dict_get scan_result ''safe'' (JBool True)) then
            \<lparr>requests = requests scanned, logged = logged scanned, delegated = [],
             result = Inl (block scan_result)\<rparr>
          else
            \<lparr>requests = requests scanned, logged = logged scanned, delegated = [call],
             result = Inr (provider call)\<rparr>)"

definition anthropic_block :: "pydict \<Rightarrow> exn" where
  "anthropic_block scan_result =
     blocked_error (Msg (dict_get scan_result ''reason'' (JStr ''Request blocked by Shrike'')))
       (dict_get_none scan_result ''threat_type'')
       (dict_get_none scan_result ''confidence'')
       JNull"

definition openai_block :: "pydict \<Rightarrow> exn" where
  "openai_block scan_result =
     (let violations = dict_get scan_result ''violations'' (JList []) in
      blocked_error
        (MsgFormat ''Request blocked: ''
           (dict_get scan_result ''reason'' (JStr ''Security threat detected'')))
        (dict_get_none scan_result ''threat_type'')
        (dict_get_none scan_result ''confidence'')
        violations)"

text \<open>
  \<^verbatim>\<open>_MessagesNamespace.create\<close> and \<^verbatim>\<open>.stream\<close>; \<^verbatim>\<open>_AsyncMessagesNamespace\<close> awaits the same
  statements. \<^verbatim>\<open>_AsyncCompletionsNamespace.create\<close> of the OpenAI adapter.
\<close>

definition anthropic_create ::
  "client \<Rightarrow> transport \<Rightarrow> (provider_call \<Rightarrow> 'r) \<Rightarrow> string \<Rightarrow> int \<Rightarrow> pydict list \<Rightarrow> bool \<Rightarrow> pydict
   \<Rightarrow> (exn, 'r) run" where
  "anthropic_create cl http provider model max_tokens messages stream kwargs =
     guarded (anthropic_scan_messages cl http messages) anthropic_block
       (Call ''messages.create''
          ([(''model'', JStr model), (''max_tokens'', JInt max_tokens),
            (''messages'', JList (map JDict messages)), (''stream'', JBool stream)] @ kwargs))
       provider"

definition anthropic_stream ::
  "client \<Rightarrow> transport \<Rightarrow> (provider_call \<Rightarrow> 'r) \<Rightarrow> string \<Rightarrow> int \<Rightarrow> pydict list \<Rightarrow> pydict
   \<Rightarrow> (exn, 'r) run" where
  "anthropic_stream cl http provider model max_tokens messages kwargs =
     guarded (anthropic_scan_messages cl http messages) anthropic_block
       (Call ''messages.stream''
          ([(''model'', JStr model), (''max_tokens'', JInt max_tokens),
            (''messages'', JList (map JDict messages))] @ kwargs))
       provider"

definition openai_create ::
  "client \<Rightarrow> transport \<Rightarrow> (provider_call \<Rightarrow> 'r) \<Rightarrow> pydict list \<Rightarrow> bool \<Rightarrow> pydict \<Rightarrow> (exn, 'r) run" where
  "openai_create cl http provider messages stream kwargs =
     guarded (openai_scan_messages cl http messages) openai_block
       (Call ''chat.completions.create''
          ([(''messages'', JList (map JDict messages)), (''stream'', JBool stream)] @ kwargs))
       provider"

section \<open>The Gemini adapter (gemini_client.py)\<close>





















section \<open>Statements of the specification\<close>

text \<open>
  The definitions of this section are not code of the SDK: they write down what the
  specification says, to be compared with the code above.
\<close>

text \<open>Sanitizing a response and then sanitizing what came out.\<close>

definition resanitize :: "pydict \<Rightarrow> pyerr + pydict" where
  "resanitize raw =
     (case sanitize_scan_response raw of Inl e \<Rightarrow> Inl e | Inr v \<Rightarrow> sanitize_scan_response v)"

text \<open>A backend that answers every request in the same way.\<close>

definition always :: "post_result \<Rightarrow> transport" where
  "always r req = r"

text \<open>
  The extractor as the specification words it: the user messages, in order; a string content
  contributes itself; a list content contributes its plain strings (when \<open>plain\<close> holds) and
  the text of its blocks tagged \<^verbatim>\<open>"text"\<close>; everything else contributes nothing; the
  contributions are joined by newlines.
\<close>

fun block_texts_spec :: "bool \<Rightarrow> json \<Rightarrow> json list" where
  "block_texts_spec plain (JStr s) = (if plain then [JStr s] else [])"
| "block_texts_spec plain (JDict block) =
     (if dict_get_none block ''type'' = JStr ''text''
      then [dict_get block ''text'' (JStr '''')] else [])"
| "block_texts_spec plain other = []"

fun content_texts_spec :: "bool \<Rightarrow> json \<Rightarrow> json list" where
  "content_texts_spec plain (JStr s) = [JStr s]"
| "content_texts_spec plain (JList blocks) = concat (map (block_texts_spec plain) blocks)"
| "content_texts_spec plain other = []"

definition is_user :: "pydict \<Rightarrow> bool" where
  "is_user msg = (dict_get_none msg ''role'' = JStr ''user'')"

definition user_texts_spec :: "bool \<Rightarrow> pydict list \<Rightarrow> json list" where
  "user_texts_spec plain messages =
     concat (map (\<lambda>msg. content_texts_spec plain (dict_get_none msg ''content''))
                 (filter is_user messages))"

definition extract_spec :: "bool \<Rightarrow> pydict list \<Rightarrow> pyerr + string" where
  "extract_spec plain messages = py_join newline (user_texts_spec plain messages)"

text \<open>The fixed output keys of the sanitizer, and the buckets of a confidence.\<close>

definition OUTPUT_KEYS :: "string set" where
  "OUTPUT_KEYS = {''safe'', ''threat_type'', ''severity'', ''confidence'', ''reason'', ''guidance''}"



text \<open>A field of the dictionary the size guard returns, if it returns one and the field is there.\<close>

definition guard_field :: "string \<Rightarrow> string option \<Rightarrow> string \<Rightarrow> json option" where
  "guard_field content context k =
     (case check_content_size content context of None \<Rightarrow> None | Some v \<Rightarrow> map_of v k)"



definition open_client :: client where
  "open_client = \<lparr>shrike_endpoint = ''https://api.shrikesecurity.com/agent'', fail_mode = OPEN\<rparr>"

definition closed_client :: client where
  "closed_client = \<lparr>shrike_endpoint = ''https://api.shrikesecurity.com/agent'', fail_mode = CLOSED\<rparr>"

definition conversation :: "pydict list" where
  "conversation = [[(''role'', JStr ''user''), (''content'', JStr ''A'')],
                   [(''role'', JStr ''assistant''), (''content'', JStr ''B'')],
                   [(''role'', JStr ''user''), (''content'', JStr ''C'')]]"



section \<open>The threat-type table\<close>

lemma THREAT_TYPE_MAP_keys_normal:
  "\<forall>(k, v) \<in> set THREAT_TYPE_MAP. replace_hyphens (py_lower k) = k \<and> k \<noteq> []"
  by (simp add: THREAT_TYPE_MAP_def replace_hyphens_def py_lower_def py_lower_char_def)

lemma THREAT_TYPE_MAP_distinct: "distinct (map fst THREAT_TYPE_MAP)"
  by (simp add: THREAT_TYPE_MAP_def)

lemma THREAT_TYPE_MAP_empty_key: "map_of THREAT_TYPE_MAP [] = None"
  by (simp add: THREAT_TYPE_MAP_def)

lemma normalize_key:
  assumes "(k, v) \<in> set THREAT_TYPE_MAP"
  shows "normalize_threat_type (JStr k) = Inr v"
proof -
  from assms THREAT_TYPE_MAP_keys_normal have n: "replace_hyphens (py_lower k) = k" "k \<noteq> []"
    by auto
  from assms THREAT_TYPE_MAP_distinct have "map_of THREAT_TYPE_MAP k = Some v"
    by simp
  with n show ?thesis
    by (simp add: normalize_threat_type_def table_get_def)
qed

lemma normalize_str:
  "normalize_threat_type (JStr s) =
     Inr (case map_of THREAT_TYPE_MAP (replace_hyphens (py_lower s)) of
            None \<Rightarrow> ''unknown'' | Some c \<Rightarrow> c)"
proof (cases "s = []")
  case True
  then show ?thesis
    by (simp add: normalize_threat_type_def py_lower_def replace_hyphens_def
                  THREAT_TYPE_MAP_empty_key)
next
  case False
  then show ?thesis
    by (simp add: normalize_threat_type_def table_get_def)
qed

lemma normalize_examples:
  "normalize_threat_type (JStr ''banana'') = Inr ''unknown''"
  "normalize_threat_type (JStr ''sqli'') = Inr ''sql_injection''"
  "normalize_threat_type (JStr ''jailbreak_attempt'') = Inr ''jailbreak''"
  "normalize_threat_type (JStr ''SQL-Injection'') = Inr ''sql_injection''"
  by code_simp+

lemma sqli_in_table: "(''sqli'', ''sql_injection'') \<in> set THREAT_TYPE_MAP"
  by (simp add: THREAT_TYPE_MAP_def)

lemma lookup_SQL_Injection:
  "map_of THREAT_TYPE_MAP (replace_hyphens (py_lower ''SQL-Injection'')) = Some ''sql_injection''"
  by code_simp

lemma lookup_banana:
  "map_of THREAT_TYPE_MAP (replace_hyphens (py_lower ''banana'')) = None"
  by code_simp

text \<open>
  C5. \<open>normalize_threat_type\<close> lower-cases its input, replaces hyphens by underscores and
  looks the result up in \<open>THREAT_TYPE_MAP\<close>: every key of the table is sent to the category
  the table gives it, a string whose normal form is a key is sent to that key's category, a
  string whose normal form is no key is sent to \<^verbatim>\<open>"unknown"\<close>, and so are \<^verbatim>\<open>None\<close> and the
  empty string; \<^verbatim>\<open>"sqli"\<close> gives \<^verbatim>\<open>"sql_injection"\<close>, \<^verbatim>\<open>"jailbreak_attempt"\<close> gives
  \<^verbatim>\<open>"jailbreak"\<close> and \<^verbatim>\<open>"banana"\<close> gives \<^verbatim>\<open>"unknown"\<close>.
\<close>

theorem normalize_threat_type_lookup:
  "(\<forall>(k, v) \<in> set THREAT_TYPE_MAP. normalize_threat_type (JStr k) = Inr v) \<and>
   (map_of THREAT_TYPE_MAP (replace_hyphens (py_lower s)) = Some c \<longrightarrow>
      normalize_threat_type (JStr s) = Inr c) \<and>
   (map_of THREAT_TYPE_MAP (replace_hyphens (py_lower u)) = None \<longrightarrow>
      normalize_threat_type (JStr u) = Inr ''unknown'') \<and>
   normalize_threat_type JNull = Inr ''unknown'' \<and>
   normalize_threat_type (JStr '''') = Inr ''unknown'' \<and>
   normalize_threat_type (JStr ''banana'') = Inr ''unknown'' \<and>
   normalize_threat_type (JStr ''sqli'') = Inr ''sql_injection'' \<and>
   normalize_threat_type (JStr ''jailbreak_attempt'') = Inr ''jailbreak''"
proof -
  have 1: "\<forall>(k, v) \<in> set THREAT_TYPE_MAP. normalize_threat_type (JStr k) = Inr v"
    using normalize_key by auto
  have 2: "normalize_threat_type JNull = Inr ''unknown''"
    "normalize_threat_type (JStr '''') = Inr ''unknown''"
    by (simp_all add: normalize_threat_type_def)
  show ?thesis
    unfolding normalize_str [of s] normalize_str [of u]
    using 1 2 normalize_examples(1,2,3) by simp
qed

theorem normalize_threat_type_lookup_witness:
  "(''sqli'', ''sql_injection'') \<in> set THREAT_TYPE_MAP \<and>
   normalize_threat_type (JStr ''sqli'') = Inr ''sql_injection'' \<and>
   map_of THREAT_TYPE_MAP (replace_hyphens (py_lower ''SQL-Injection'')) = Some ''sql_injection'' \<and>
   normalize_threat_type (JStr ''SQL-Injection'') = Inr ''sql_injection'' \<and>
   map_of THREAT_TYPE_MAP (replace_hyphens (py_lower ''banana'')) = None \<and>
   normalize_threat_type (JStr ''banana'') = Inr ''unknown''"
  using normalize_threat_type_lookup [of "''SQL-Injection''" "''sql_injection''" "''banana''"]
        sqli_in_table lookup_SQL_Injection lookup_banana
  by blast

section \<open>Confidence buckets\<close>

text \<open>
  C4. \<open>bucket_confidence\<close> sends every score that is at least \<^verbatim>\<open>0.9\<close> to \<^verbatim>\<open>"high"\<close>, every
  score that is at least \<^verbatim>\<open>0.7\<close> and below \<^verbatim>\<open>0.9\<close> to \<^verbatim>\<open>"medium"\<close>, every other score to
  \<^verbatim>\<open>"low"\<close> and a missing score (\<^verbatim>\<open>None\<close>) to \<^verbatim>\<open>"medium"\<close>, where the comparisons are
  Python's, with the doubles of the two literals; the scores \<^verbatim>\<open>0.95\<close>, \<^verbatim>\<open>0.9\<close> are high,
  \<^verbatim>\<open>0.75\<close> and \<^verbatim>\<open>0.7\<close> are medium and \<^verbatim>\<open>0.5\<close> is low. An \<^verbatim>\<open>int\<close> score is high from 1 on and
  low otherwise.
\<close>

theorem bucket_confidence_buckets:
  "(float_0_9 \<le> a \<longrightarrow> bucket_confidence (JFloat a) = Inr ''high'') \<and>
   (float_0_7 \<le> b \<and> b < float_0_9 \<longrightarrow> bucket_confidence (JFloat b) = Inr ''medium'') \<and>
   (c < float_0_7 \<longrightarrow> bucket_confidence (JFloat c) = Inr ''low'') \<and>
   (1 \<le> n \<longrightarrow> bucket_confidence (JInt n) = Inr ''high'') \<and>
   (m \<le> 0 \<longrightarrow> bucket_confidence (JInt m) = Inr ''low'') \<and>
   bucket_confidence JNull = Inr ''medium'' \<and>
   bucket_confidence (JFloat float_0_95) = Inr ''high'' \<and>
   bucket_confidence (JFloat float_0_9) = Inr ''high'' \<and>
   bucket_confidence (JFloat 0.75) = Inr ''medium'' \<and>
   bucket_confidence (JFloat float_0_7) = Inr ''medium'' \<and>
   bucket_confidence (JFloat 0.5) = Inr ''low''"
proof -
  have i: "float_0_9 \<le> real_of_int n" if "1 \<le> n"
  proof -
    have "float_0_9 \<le> 1"
      by (simp add: float_0_9_def)
    also from that have "1 \<le> real_of_int n"
      by simp
    finally show ?thesis .
  qed
  have j: "real_of_int m < float_0_7" "real_of_int m < float_0_9" if "m \<le> 0"
  proof -
    from that have "real_of_int m \<le> 0"
      by simp
    then show "real_of_int m < float_0_7" "real_of_int m < float_0_9"
      by (simp_all add: float_0_7_def float_0_9_def)
  qed
  have k: "float_0_7 < float_0_9"
    by (simp add: float_0_7_def float_0_9_def)
  have l: "float_0_9 \<le> float_0_95" "float_0_7 \<le> 0.75" "(0.75::real) < float_0_9"
    "(0.5::real) < float_0_7"
    by (simp_all add: float_0_7_def float_0_9_def float_0_95_def)
  show ?thesis
    using i j k l by (auto simp: bucket_confidence_def)
qed

theorem bucket_confidence_buckets_witness:
  "float_0_9 \<le> 1 \<and> bucket_confidence (JFloat 1) = Inr ''high'' \<and>
   float_0_7 \<le> float_0_7 \<and> float_0_7 < float_0_9 \<and>
   bucket_confidence (JFloat float_0_7) = Inr ''medium'' \<and>
   (1 / 4 :: real) < float_0_7 \<and> bucket_confidence (JFloat (1 / 4)) = Inr ''low'' \<and>
   (1::int) \<le> 1 \<and> bucket_confidence (JInt 1) = Inr ''high'' \<and>
   (0::int) \<le> 0 \<and> bucket_confidence (JInt 0) = Inr ''low''"
proof -
  have h: "float_0_9 \<le> 1" "float_0_7 < float_0_9" "(1 / 4 :: real) < float_0_7"
    by (simp_all add: float_0_7_def float_0_9_def)
  from bucket_confidence_buckets [of 1 float_0_7 "1 / 4" 1 0] h show ?thesis
    by simp
qed

section \<open>The sanitizer\<close>

lemma sanitize_safe:
  "truthy (dict_get raw ''safe'' (JBool True)) \<Longrightarrow>
   sanitize_scan_response raw =
     Inr [(''safe'', JBool True), (''reason'', dict_get raw ''reason'' (JStr ''''))]"
  by (simp add: sanitize_scan_response_def)

lemma sanitize_unsafe:
  assumes "\<not> truthy (dict_get raw ''safe'' (JBool True))"
    and "sanitize_scan_response raw = Inr out"
  shows "\<exists>t s c r g.
           out = [(''safe'', JBool False), (''threat_type'', JStr t), (''severity'', JStr s),
                  (''confidence'', JStr c), (''reason'', r), (''guidance'', JStr g)] \<and>
           normalize_threat_type (dict_get raw ''threat_type'' (JStr ''unknown'')) = Inr t \<and>
           bucket_confidence (dict_get_none raw ''confidence'') = Inr c"
  using assms
  by (auto simp: sanitize_scan_response_def Let_def split: sum.splits)

lemma normalize_str_total: "\<exists>t. normalize_threat_type (JStr s) = Inr t"
  by (simp add: normalize_threat_type_def)

lemma bucket_confidence_str: "bucket_confidence (JStr c) = Inl (not_supported (JStr c))"
  by (simp add: bucket_confidence_def)

lemma resanitize_unsafe:
  assumes "\<not> truthy (dict_get raw ''safe'' (JBool True))"
    and "sanitize_scan_response raw = Inr out"
  shows "\<exists>c. sanitize_scan_response out = Inl (not_supported (JStr c))"
proof -
  from sanitize_unsafe [OF assms] obtain t s c r g where
    out: "out = [(''safe'', JBool False), (''threat_type'', JStr t), (''severity'', JStr s),
                 (''confidence'', JStr c), (''reason'', r), (''guidance'', JStr g)]"
    by blast
  obtain t' where t': "normalize_threat_type (JStr t) = Inr t'"
    using normalize_str_total by blast
  have "sanitize_scan_response out = Inl (not_supported (JStr c))"
    unfolding out
    by (simp add: sanitize_scan_response_def dict_get_def dict_get_none_def t'
                  bucket_confidence_str)
  then show ?thesis by blast
qed

theorem sanitize_idempotent_counterexample:
  "resanitize [(''safe'', JBool False)] \<noteq> sanitize_scan_response [(''safe'', JBool False)]"
  by code_simp

text \<open>
  C7. A raw verdict whose \<^verbatim>\<open>"safe"\<close> field is truthy (or missing) is sanitized to a
  dictionary with exactly the keys \<^verbatim>\<open>safe\<close> and \<^verbatim>\<open>reason\<close> and \<^verbatim>\<open>safe == True\<close>, and
  sanitizing that output again returns it unchanged. Sanitization is idempotent on those
  verdicts only: the output of an unsafe verdict carries its confidence as a bucket name, a
  \<^verbatim>\<open>str\<close>, and sanitizing it again raises the \<^verbatim>\<open>TypeError\<close> of comparing a \<^verbatim>\<open>str\<close> with a
  \<^verbatim>\<open>float\<close>.
\<close>

theorem sanitize_safe_shape_and_idempotence:
  "(truthy (dict_get raw ''safe'' (JBool True)) \<longrightarrow>
      (\<exists>out. sanitize_scan_response raw = Inr out \<and> keys out = {''safe'', ''reason''} \<and>
             dict_get_none out ''safe'' = JBool True) \<and>
      resanitize raw = sanitize_scan_response raw) \<and>
   (\<not> truthy (dict_get raw' ''safe'' (JBool True)) \<and> sanitize_scan_response raw' = Inr out'
      \<longrightarrow> (\<exists>c. resanitize raw' = Inl (not_supported (JStr c))))"
proof (intro conjI impI)
  assume s: "truthy (dict_get raw ''safe'' (JBool True))"
  show "\<exists>out. sanitize_scan_response raw = Inr out \<and> keys out = {''safe'', ''reason''} \<and>
             dict_get_none out ''safe'' = JBool True"
    using sanitize_safe [OF s] by (auto simp: keys_def dict_get_none_def dict_get_def)
  show "resanitize raw = sanitize_scan_response raw"
    using sanitize_safe [OF s]
    by (simp add: resanitize_def sanitize_scan_response_def dict_get_def)
next
  assume u: "\<not> truthy (dict_get raw' ''safe'' (JBool True)) \<and> sanitize_scan_response raw' = Inr out'"
  then show "\<exists>c. resanitize raw' = Inl (not_supported (JStr c))"
    using resanitize_unsafe [of raw' out'] by (simp add: resanitize_def)
qed

theorem sanitize_safe_shape_and_idempotence_witness:
  "truthy (dict_get [(''safe'', JBool True), (''policy_id'', JStr ''p-17'')] ''safe'' (JBool True)) \<and>
   resanitize [(''safe'', JBool True), (''policy_id'', JStr ''p-17'')]
     = sanitize_scan_response [(''safe'', JBool True), (''policy_id'', JStr ''p-17'')] \<and>
   \<not> truthy (dict_get [(''safe'', JBool False)] ''safe'' (JBool True)) \<and>
   (\<exists>out. sanitize_scan_response [(''safe'', JBool False)] = Inr out) \<and>
   (\<exists>c. resanitize [(''safe'', JBool False)] = Inl (not_supported (JStr c)))"
proof -
  have a: "truthy (dict_get [(''safe'', JBool True), (''policy_id'', JStr ''p-17'')] ''safe'' (JBool True))"
    by (simp add: dict_get_def)
  have b: "\<not> truthy (dict_get [(''safe'', JBool False)] ''safe'' (JBool True))"
    by (simp add: dict_get_def)
  have c: "\<exists>out. sanitize_scan_response [(''safe'', JBool False)] = Inr out"
    by (simp add: sanitize_scan_response_def dict_get_def dict_get_none_def Let_def
                  normalize_threat_type_def bucket_confidence_def derive_severity_def)
  then obtain out where o: "sanitize_scan_response [(''safe'', JBool False)] = Inr out" by blast
  show ?thesis
    using sanitize_safe_shape_and_idempotence
            [of "[(''safe'', JBool True), (''policy_id'', JStr ''p-17'')]"
                "[(''safe'', JBool False)]" out] a b c o
    by blast
qed

lemma output_keys_not_internal: "OUTPUT_KEYS \<inter> INTERNAL_FIELDS = {}"
  by (simp add: OUTPUT_KEYS_def INTERNAL_FIELDS_def)

lemma sanitize_keys:
  assumes o: "sanitize_scan_response raw = Inr out"
  shows "keys out \<subseteq> OUTPUT_KEYS"
proof (cases "truthy (dict_get raw ''safe'' (JBool True))")
  case True
  with o sanitize_safe [OF True] show ?thesis
    by (auto simp: keys_def OUTPUT_KEYS_def)
next
  case False
  from sanitize_unsafe [OF False o] show ?thesis
    by (auto simp: keys_def OUTPUT_KEYS_def)
qed

lemma sanitize_reads_public_fields:
  assumes h: "\<forall>k. k \<notin> INTERNAL_FIELDS \<longrightarrow> map_of raw1 k = map_of raw2 k"
  shows "sanitize_scan_response raw1 = sanitize_scan_response raw2"
proof -
  have n: "''safe'' \<notin> INTERNAL_FIELDS" "''reason'' \<notin> INTERNAL_FIELDS"
    "''threat_type'' \<notin> INTERNAL_FIELDS" "''confidence'' \<notin> INTERNAL_FIELDS"
    "''severity'' \<notin> INTERNAL_FIELDS"
    by (simp_all add: INTERNAL_FIELDS_def)
  with h have e: "map_of raw1 ''safe'' = map_of raw2 ''safe''"
    "map_of raw1 ''reason'' = map_of raw2 ''reason''"
    "map_of raw1 ''threat_type'' = map_of raw2 ''threat_type''"
    "map_of raw1 ''confidence'' = map_of raw2 ''confidence''"
    "map_of raw1 ''severity'' = map_of raw2 ''severity''"
    by blast+
  have g: "\<And>d. dict_get raw1 ''safe'' d = dict_get raw2 ''safe'' d"
    "\<And>d. dict_get raw1 ''reason'' d = dict_get raw2 ''reason'' d"
    "\<And>d. dict_get raw1 ''threat_type'' d = dict_get raw2 ''threat_type'' d"
    "\<And>d. dict_get raw1 ''confidence'' d = dict_get raw2 ''confidence'' d"
    "\<And>d. dict_get raw1 ''severity'' d = dict_get raw2 ''severity'' d"
    by (simp_all add: dict_get_def e)
  show ?thesis
    unfolding sanitize_scan_response_def dict_get_none_def g ..
qed

text \<open>
  C8. Every key of an output of \<open>sanitize_scan_response\<close> is one of \<^verbatim>\<open>safe\<close>,
  \<^verbatim>\<open>threat_type\<close>, \<^verbatim>\<open>severity\<close>, \<^verbatim>\<open>confidence\<close>, \<^verbatim>\<open>reason\<close> and \<^verbatim>\<open>guidance\<close>, so none is
  an internal field; and two raw responses that agree on every field outside
  \<open>INTERNAL_FIELDS\<close> are sanitized to the same result: no internal field survives into the
  output or influences it.
\<close>

theorem sanitize_strips_internal_fields:
  "(sanitize_scan_response raw = Inr out \<longrightarrow>
      keys out \<subseteq> OUTPUT_KEYS \<and> keys out \<inter> INTERNAL_FIELDS = {}) \<and>
   ((\<forall>k. k \<notin> INTERNAL_FIELDS \<longrightarrow> map_of raw1 k = map_of raw2 k) \<longrightarrow>
      sanitize_scan_response raw1 = sanitize_scan_response raw2)"
  using sanitize_keys [of raw out] sanitize_reads_public_fields [of raw1 raw2]
        output_keys_not_internal
  by blast

lemma leaky_pair_agree:
  "\<forall>k. k \<notin> INTERNAL_FIELDS \<longrightarrow>
     map_of [(''safe'', JBool False), (''threat_type'', JStr ''sqli''),
             (''matched_pattern'', JStr ''union select''), (''policy_id'', JStr ''p-17'')] k
     = map_of [(''safe'', JBool False), (''threat_type'', JStr ''sqli'')] k"
  by (simp add: INTERNAL_FIELDS_def)

lemma leaky_sanitized:
  "sanitize_scan_response [(''safe'', JBool False), (''threat_type'', JStr ''sqli'')] =
     Inr [(''safe'', JBool False), (''threat_type'', JStr ''sql_injection''),
          (''severity'', JStr ''critical''), (''confidence'', JStr ''medium''),
          (''reason'', JStr ''This query contains potentially dangerous SQL patterns.''),
          (''guidance'', JStr ''This query contains potentially dangerous SQL patterns.'')]"
  by code_simp

theorem sanitize_strips_internal_fields_witness:
  "sanitize_scan_response
     [(''safe'', JBool False), (''threat_type'', JStr ''sqli''),
      (''matched_pattern'', JStr ''union select''), (''policy_id'', JStr ''p-17'')]
     = sanitize_scan_response [(''safe'', JBool False), (''threat_type'', JStr ''sqli'')] \<and>
   keys [(''safe'', JBool False), (''threat_type'', JStr ''sql_injection''),
         (''severity'', JStr ''critical''), (''confidence'', JStr ''medium''),
         (''reason'', JStr ''This query contains potentially dangerous SQL patterns.''),
         (''guidance'', JStr ''This query contains potentially dangerous SQL patterns.'')]
     \<subseteq> OUTPUT_KEYS"
  using sanitize_strips_internal_fields
          [of "[(''safe'', JBool False), (''threat_type'', JStr ''sqli'')]"
              "[(''safe'', JBool False), (''threat_type'', JStr ''sql_injection''),
                (''severity'', JStr ''critical''), (''confidence'', JStr ''medium''),
                (''reason'', JStr ''This query contains potentially dangerous SQL patterns.''),
                (''guidance'', JStr ''This query contains potentially dangerous SQL patterns.'')]"
              "[(''safe'', JBool False), (''threat_type'', JStr ''sqli''),
                (''matched_pattern'', JStr ''union select''), (''policy_id'', JStr ''p-17'')]"
              "[(''safe'', JBool False), (''threat_type'', JStr ''sqli'')]"]
        leaky_pair_agree leaky_sanitized
  by blast

section \<open>The scan of a conversation\<close>







section \<open>Blocking on an unsafe verdict\<close>












section \<open>A response without a verdict field\<close>






section \<open>Failures of the scan round trip\<close>

lemma remote_scan_failure:
  assumes "round_trip http (scan_request cl prompt) = Inl f"
  shows "remote_scan cl http prompt =
           \<lparr>requests = [scan_request cl prompt],
            logged = (if fail_mode cl = OPEN \<and> f = TimeoutException
                      then [(WARNING, ''Scan request timed out, failing open (allowing request)'')]
                      else []),
            delegated = [],
            result =
              (case fail_mode cl of
                 OPEN \<Rightarrow>
                   Inr [(''safe'', JBool True),
                        (''reason'',
                         JStr (case f of
                                 TimeoutException \<Rightarrow> ''Scan timeout, failing open''
                               | HTTPStatusError status_code \<Rightarrow>
                                   ''Scan API error: '' @ str_of_nat status_code
                               | OtherException m \<Rightarrow> ''Scan error: '' @ m))]
               | CLOSED \<Rightarrow>
                   Inl (ShrikeScanError
                          (case f of
                             TimeoutException \<Rightarrow>
                               ''Scan request timed out and fail_mode is '' @ quoted ''closed''
                           | HTTPStatusError status_code \<Rightarrow>
                               ''Scan API returned error: '' @ str_of_nat status_code
                           | OtherException m \<Rightarrow> ''Scan failed: '' @ m)))\<rparr>"
  using assms
  by (cases f; cases "fail_mode cl") (simp_all add: remote_scan_def Let_def)

lemma remote_scan_closed_raises:
  assumes "round_trip http (scan_request cl prompt) = Inl f" and "fail_mode cl = CLOSED"
  shows "\<exists>m. remote_scan cl http prompt =
           \<lparr>requests = [scan_request cl prompt], logged = [], delegated = [],
            result = Inl (ShrikeScanError m)\<rparr>"
  using assms by (simp add: remote_scan_failure)

lemma guarded_scan_error:
  assumes "extractor messages = Inr prompt" and "py_strip prompt \<noteq> []"
    and "round_trip http (scan_request cl prompt) = Inl f" and "fail_mode cl = CLOSED"
  shows "\<exists>m. guarded (scan_messages extractor cl http messages) block call provider =
           \<lparr>requests = [scan_request cl prompt], logged = [], delegated = [],
            result = Inl (ShrikeScanError m)\<rparr>"
proof -
  from remote_scan_closed_raises [OF assms(3,4)] obtain m where
    "remote_scan cl http prompt =
       \<lparr>requests = [scan_request cl prompt], logged = [], delegated = [],
        result = Inl (ShrikeScanError m)\<rparr>"
    by blast
  with assms(1,2) show ?thesis
    by (simp add: guarded_def scan_messages_def)
qed

lemma http_500:
  "round_trip (always (Response 500 (Inr JNull))) (scan_request open_client ''hi'')
   = Inl (HTTPStatusError 500)"
  by (simp add: round_trip_def always_def)

lemma str_of_nat_500: "str_of_nat 500 = ''500''"
  by code_simp

text \<open>
  C1. When the round trip of a scan fails, \<^verbatim>\<open>_remote_scan\<close> under \<^verbatim>\<open>OPEN\<close> raises nothing and
  returns a safe verdict whose reason names the failure, and under \<^verbatim>\<open>CLOSED\<close> raises
  \<^verbatim>\<open>ShrikeScanError\<close> naming the failure; under \<^verbatim>\<open>CLOSED\<close> every entry point raises that error
  and delegates no call to the provider. A warning is logged under \<^verbatim>\<open>OPEN\<close> when the
  failure is a timeout, and nothing is logged for any other failure.
\<close>

theorem remote_scan_failure_policy:
  assumes "round_trip http (scan_request cl prompt) = Inl f"
  shows "remote_scan cl http prompt =
           \<lparr>requests = [scan_request cl prompt],
            logged = (if fail_mode cl = OPEN \<and> f = TimeoutException
                      then [(WARNING, ''Scan request timed out, failing open (allowing request)'')]
                      else []),
            delegated = [],
            result =
              (case fail_mode cl of
                 OPEN \<Rightarrow>
                   Inr [(''safe'', JBool True),
                        (''reason'',
                         JStr (case f of
                                 TimeoutException \<Rightarrow> ''Scan timeout, failing open''
                               | HTTPStatusError status_code \<Rightarrow>
                                   ''Scan API error: '' @ str_of_nat status_code
                               | OtherException m \<Rightarrow> ''Scan error: '' @ m))]
               | CLOSED \<Rightarrow>
                   Inl (ShrikeScanError
                          (case f of
                             TimeoutException \<Rightarrow>
                               ''Scan request timed out and fail_mode is '' @ quoted ''closed''
                           | HTTPStatusError status_code \<Rightarrow>
                               ''Scan API returned error: '' @ str_of_nat status_code
                           | OtherException m \<Rightarrow> ''Scan failed: '' @ m)))\<rparr> \<and>
         (fail_mode cl = CLOSED \<and> anthropic_extract_user_content messages = Inr prompt \<and>
          py_strip prompt \<noteq> [] \<longrightarrow>
            (\<exists>m. anthropic_create cl http provider model max_tokens messages stream kwargs =
                   \<lparr>requests = [scan_request cl prompt], logged = [], delegated = [],
                    result = Inl (ShrikeScanError m)\<rparr>) \<and>
            (\<exists>m. anthropic_stream cl http provider model max_tokens messages kwargs =
                   \<lparr>requests = [scan_request cl prompt], logged = [], delegated = [],
                    result = Inl (ShrikeScanError m)\<rparr>)) \<and>
         (fail_mode cl = CLOSED \<and> openai_extract_user_content messages = Inr prompt \<and>
          py_strip prompt \<noteq> [] \<longrightarrow>
            (\<exists>m. openai_create cl http provider messages stream kwargs =
                   \<lparr>requests = [scan_request cl prompt], logged = [], delegated = [],
                    result = Inl (ShrikeScanError m)\<rparr>))"
proof (intro conjI impI)
  show "remote_scan cl http prompt =
           \<lparr>requests = [scan_request cl prompt],
            logged = (if fail_mode cl = OPEN \<and> f = TimeoutException
                      then [(WARNING, ''Scan request timed out, failing open (allowing request)'')]
                      else []),
            delegated = [],
            result =
              (case fail_mode cl of
                 OPEN \<Rightarrow>
                   Inr [(''safe'', JBool True),
                        (''reason'',
                         JStr (case f of
                                 TimeoutException \<Rightarrow> ''Scan timeout, failing open''
                               | HTTPStatusError status_code \<Rightarrow>
                                   ''Scan API error: '' @ str_of_nat status_code
                               | OtherException m \<Rightarrow> ''Scan error: '' @ m))]
               | CLOSED \<Rightarrow>
                   Inl (ShrikeScanError
                          (case f of
                             TimeoutException \<Rightarrow>
                               ''Scan request timed out and fail_mode is '' @ quoted ''closed''
                           | HTTPStatusError status_code \<Rightarrow>
                               ''Scan API returned error: '' @ str_of_nat status_code
                           | OtherException m \<Rightarrow> ''Scan failed: '' @ m)))\<rparr>"
    using assms by (rule remote_scan_failure)
next
  assume c: "fail_mode cl = CLOSED \<and> anthropic_extract_user_content messages = Inr prompt \<and>
             py_strip prompt \<noteq> []"
  then show "\<exists>m. anthropic_create cl http provider model max_tokens messages stream kwargs =
                   \<lparr>requests = [scan_request cl prompt], logged = [], delegated = [],
                    result = Inl (ShrikeScanError m)\<rparr>"
    unfolding anthropic_create_def anthropic_scan_messages_def
    using guarded_scan_error [where extractor = anthropic_extract_user_content, OF _ _ assms]
    by blast
  from c show "\<exists>m. anthropic_stream cl http provider model max_tokens messages kwargs =
                   \<lparr>requests = [scan_request cl prompt], logged = [], delegated = [],
                    result = Inl (ShrikeScanError m)\<rparr>"
    unfolding anthropic_stream_def anthropic_scan_messages_def
    using guarded_scan_error [where extractor = anthropic_extract_user_content, OF _ _ assms]
    by blast
next
  assume c: "fail_mode cl = CLOSED \<and> openai_extract_user_content messages = Inr prompt \<and>
             py_strip prompt \<noteq> []"
  then show "\<exists>m. openai_create cl http provider messages stream kwargs =
                   \<lparr>requests = [scan_request cl prompt], logged = [], delegated = [],
                    result = Inl (ShrikeScanError m)\<rparr>"
    unfolding openai_create_def openai_scan_messages_def
    using guarded_scan_error [where extractor = openai_extract_user_content, OF _ _ assms]
    by blast
qed

theorem remote_scan_failure_policy_witness:
  "round_trip (always (Response 500 (Inr JNull))) (scan_request open_client ''hi'')
     = Inl (HTTPStatusError 500) \<and>
   fail_mode open_client = OPEN \<and>
   remote_scan open_client (always (Response 500 (Inr JNull))) ''hi'' =
     \<lparr>requests = [scan_request open_client ''hi''], logged = [], delegated = [],
      result = Inr [(''safe'', JBool True), (''reason'', JStr ''Scan API error: 500'')]\<rparr>"
proof -
  have o: "fail_mode open_client = OPEN"
    by (simp add: open_client_def)
  from remote_scan_failure_policy [OF http_500]
  have "remote_scan open_client (always (Response 500 (Inr JNull))) ''hi'' =
     \<lparr>requests = [scan_request open_client ''hi''], logged = [], delegated = [],
      result = Inr [(''safe'', JBool True), (''reason'', JStr ''Scan API error: 500'')]\<rparr>"
    by (simp add: o str_of_nat_500)
  with o http_500 show ?thesis by simp
qed

section \<open>The size guard\<close>

lemma guard_over:
  assumes "length content + (case context of None \<Rightarrow> 0 | Some c \<Rightarrow> length c) > MAX_CONTENT_SIZE"
  shows "check_content_size content context =
           Some [(''safe'', JBool False),
                 (''reason'',
                  JStr (''Content too large (''
                        @ str_of_nat ((length content
                                       + (case context of None \<Rightarrow> 0 | Some c \<Rightarrow> length c))
                                      div 1024)
                        @ ''KB > '' @ str_of_nat (MAX_CONTENT_SIZE div 1024) @ ''KB limit)'')),
                 (''threat_type'', JStr ''size_limit_exceeded''),
                 (''confidence'', JFloat 1),
                 (''violations'',
                  JList [JDict [(''type'', JStr ''size_limit''),
                                (''description'',
                                 JStr (''Content exceeds maximum size of ''
                                       @ str_of_nat (MAX_CONTENT_SIZE div 1024) @ ''KB''))]])]"
  using assms
  by (cases "context") (auto simp: check_content_size_def Let_def)

lemma guard_under:
  assumes "length content + (case context of None \<Rightarrow> 0 | Some c \<Rightarrow> length c) \<le> MAX_CONTENT_SIZE"
  shows "check_content_size content context = None"
  using assms
  by (cases "context") (auto simp: check_content_size_def Let_def)

lemma scan_guarded:
  assumes "check_content_size content context = Some v" and "v \<noteq> []"
  shows "scan endpoint http content context =
           \<lparr>requests = [], logged = [], delegated = [], result = Inr v\<rparr>"
  using assms by (simp add: scan_def Let_def)

lemma scan_proceeds:
  assumes "check_content_size content context = None"
  shows "scan endpoint http content context =
           \<lparr>requests = [\<lparr>url = endpoint @ ''/scan'',
                         payload = JDict ([(''prompt'', JStr content)]
                                          @ (case context of
                                               None \<Rightarrow> []
                                             | Some c \<Rightarrow>
                                                 if c \<noteq> [] then [(''context'', JStr c)] else []))\<rparr>],
            logged = [], delegated = [],
            result = round_trip http
                       \<lparr>url = endpoint @ ''/scan'',
                        payload = JDict ([(''prompt'', JStr content)]
                                         @ (case context of
                                              None \<Rightarrow> []
                                            | Some c \<Rightarrow>
                                                if c \<noteq> [] then [(''context'', JStr c)] else []))\<rparr>\<rparr>"
  using assms by (simp add: scan_def Let_def)

theorem size_guard_counterexample:
  "guard_field (replicate 102401 (CHR ''a'')) None ''threat_type'' = Some (JStr ''size_limit_exceeded'') \<and>
   guard_field (replicate 102401 (CHR ''a'')) None ''confidence'' = Some (JFloat 1) \<and>
   guard_field (replicate 102401 (CHR ''a'')) None ''confidence'' \<noteq> Some (JStr ''high'') \<and>
   guard_field (replicate 102401 (CHR ''a'')) None ''severity'' = None \<and>
   guard_field (replicate 102401 (CHR ''a'')) None ''severity'' \<noteq> Some (JStr ''low'')"
  by (simp add: guard_field_def check_content_size_def MAX_CONTENT_SIZE_def Let_def)

text \<open>
  C3. When the length of the text plus the length of the context exceeds
  \<open>MAX_CONTENT_SIZE\<close>, the size guard returns a dictionary with \<^verbatim>\<open>safe\<close> false,
  \<^verbatim>\<open>threat_type\<close> \<^verbatim>\<open>"size_limit_exceeded"\<close>, the raw \<^verbatim>\<open>confidence\<close> 1.0, a \<^verbatim>\<open>reason\<close>, a list of
  \<^verbatim>\<open>violations\<close> and no \<^verbatim>\<open>severity\<close>, and \<^verbatim>\<open>scan\<close> returns that dictionary without sending a
  request; otherwise the guard returns \<^verbatim>\<open>None\<close> and \<^verbatim>\<open>scan\<close> sends one request and returns
  the outcome of its round trip.
\<close>

theorem size_guard_verdict:
  "(length content + (case context of None \<Rightarrow> 0 | Some c \<Rightarrow> length c) > MAX_CONTENT_SIZE \<longrightarrow>
      (\<exists>reason violations.
         check_content_size content context =
           Some [(''safe'', JBool False), (''reason'', JStr reason),
                 (''threat_type'', JStr ''size_limit_exceeded''), (''confidence'', JFloat 1),
                 (''violations'', JList violations)] \<and>
         scan endpoint http content context =
           \<lparr>requests = [], logged = [], delegated = [],
            result = Inr [(''safe'', JBool False), (''reason'', JStr reason),
                          (''threat_type'', JStr ''size_limit_exceeded''),
                          (''confidence'', JFloat 1), (''violations'', JList violations)]\<rparr>) \<and>
      guard_field content context ''severity'' = None) \<and>
   (length content + (case context of None \<Rightarrow> 0 | Some c \<Rightarrow> length c) \<le> MAX_CONTENT_SIZE \<longrightarrow>
      check_content_size content context = None \<and>
      scan endpoint http content context =
        \<lparr>requests = [\<lparr>url = endpoint @ ''/scan'',
                      payload = JDict ([(''prompt'', JStr content)]
                                       @ (case context of
                                            None \<Rightarrow> []
                                          | Some c \<Rightarrow>
                                              if c \<noteq> [] then [(''context'', JStr c)] else []))\<rparr>],
         logged = [], delegated = [],
         result = round_trip http
                    \<lparr>url = endpoint @ ''/scan'',
                     payload = JDict ([(''prompt'', JStr content)]
                                      @ (case context of
                                           None \<Rightarrow> []
                                         | Some c \<Rightarrow>
                                             if c \<noteq> [] then [(''context'', JStr c)] else []))\<rparr>\<rparr>)"
proof (intro conjI impI)
  assume over: "length content + (case context of None \<Rightarrow> 0 | Some c \<Rightarrow> length c) > MAX_CONTENT_SIZE"
  note g = guard_over [OF over]
  from g scan_guarded [OF g]
  show "\<exists>reason violations.
         check_content_size content context =
           Some [(''safe'', JBool False), (''reason'', JStr reason),
                 (''threat_type'', JStr ''size_limit_exceeded''), (''confidence'', JFloat 1),
                 (''violations'', JList violations)] \<and>
         scan endpoint http content context =
           \<lparr>requests = [], logged = [], delegated = [],
            result = Inr [(''safe'', JBool False), (''reason'', JStr reason),
                          (''threat_type'', JStr ''size_limit_exceeded''),
                          (''confidence'', JFloat 1), (''violations'', JList violations)]\<rparr>"
    by simp
  from g show "guard_field content context ''severity'' = None"
    by (simp add: guard_field_def)
next
  assume under: "length content + (case context of None \<Rightarrow> 0 | Some c \<Rightarrow> length c) \<le> MAX_CONTENT_SIZE"
  note g = guard_under [OF under]
  from g show "check_content_size content context = None" .
  from scan_proceeds [OF g]
  show "scan endpoint http content context =
        \<lparr>requests = [\<lparr>url = endpoint @ ''/scan'',
                      payload = JDict ([(''prompt'', JStr content)]
                                       @ (case context of
                                            None \<Rightarrow> []
                                          | Some c \<Rightarrow>
                                              if c \<noteq> [] then [(''context'', JStr c)] else []))\<rparr>],
         logged = [], delegated = [],
         result = round_trip http
                    \<lparr>url = endpoint @ ''/scan'',
                     payload = JDict ([(''prompt'', JStr content)]
                                      @ (case context of
                                           None \<Rightarrow> []
                                         | Some c \<Rightarrow>
                                             if c \<noteq> [] then [(''context'', JStr c)] else []))\<rparr>\<rparr>" .
qed

theorem size_guard_verdict_witness:
  "length (replicate 102400 (CHR ''a'')) + length ''b'' > MAX_CONTENT_SIZE \<and>
   requests (scan ''https://api.shrikesecurity.com/agent'' (always Timeout)
               (replicate 102400 (CHR ''a'')) (Some ''b'')) = [] \<and>
   guard_field (replicate 102400 (CHR ''a'')) (Some ''b'') ''severity'' = None \<and>
   length ''hi'' \<le> MAX_CONTENT_SIZE \<and>
   check_content_size ''hi'' None = None \<and>
   scan ''https://api.shrikesecurity.com/agent'' (always Timeout) ''hi'' None =
     \<lparr>requests = [\<lparr>url = ''https://api.shrikesecurity.com/agent/scan'',
                   payload = JDict [(''prompt'', JStr ''hi'')]\<rparr>],
      logged = [], delegated = [], result = Inl TimeoutException\<rparr>"
proof -
  have a: "length (replicate 102400 (CHR ''a''))
           + (case Some ''b'' of None \<Rightarrow> 0 | Some c \<Rightarrow> length c) > MAX_CONTENT_SIZE"
    by (simp add: MAX_CONTENT_SIZE_def)
  have b: "length ''hi'' + (case None :: string option of None \<Rightarrow> 0 | Some c \<Rightarrow> length c)
           \<le> MAX_CONTENT_SIZE"
    by (simp add: MAX_CONTENT_SIZE_def)
  have 1: "requests (scan ''https://api.shrikesecurity.com/agent'' (always Timeout)
               (replicate 102400 (CHR ''a'')) (Some ''b'')) = [] \<and>
           guard_field (replicate 102400 (CHR ''a'')) (Some ''b'') ''severity'' = None"
    using size_guard_verdict
            [of "replicate 102400 (CHR ''a'')" "Some ''b''"
                "''https://api.shrikesecurity.com/agent''" "always Timeout"] a
    by auto
  have 2: "check_content_size ''hi'' None = None \<and>
           scan ''https://api.shrikesecurity.com/agent'' (always Timeout) ''hi'' None =
             \<lparr>requests = [\<lparr>url = ''https://api.shrikesecurity.com/agent/scan'',
                           payload = JDict [(''prompt'', JStr ''hi'')]\<rparr>],
              logged = [], delegated = [], result = Inl TimeoutException\<rparr>"
    using size_guard_verdict
            [of "''hi''" None "''https://api.shrikesecurity.com/agent''" "always Timeout"] b
    by (simp add: round_trip_def always_def)
  from a b 1 2 show ?thesis by simp
qed

section \<open>Conversations without user text\<close>

lemma scan_messages_blank:
  assumes "extractor messages = Inr text" and "py_strip text = []"
  shows "scan_messages extractor cl http messages =
           \<lparr>requests = [], logged = [], delegated = [],
            result = Inr [(''safe'', JBool True), (''reason'', JStr ''No user content to scan'')]\<rparr>"
  using assms by (simp add: scan_messages_def)

theorem empty_text_reason_counterexample:
  "result (anthropic_scan_messages closed_client (always Timeout) []) \<noteq>
     Inr [(''safe'', JBool True), (''reason'', JStr ''no content to scan'')] \<and>
   result (openai_scan_messages closed_client (always Timeout) []) \<noteq>
     Inr [(''safe'', JBool True), (''reason'', JStr ''no content to scan'')]"
  by code_simp

text \<open>
  C6. When the text extracted from the messages is empty, or holds white space only,
  \<^verbatim>\<open>_scan_messages\<close> of the Anthropic adapter and of the OpenAI adapter sends no request and
  returns the safe verdict whose reason is \<^verbatim>\<open>"No user content to scan"\<close>.
\<close>

theorem blank_text_is_not_scanned:
  "(anthropic_extract_user_content messages = Inr text \<and> py_strip text = [] \<longrightarrow>
      anthropic_scan_messages cl http messages =
        \<lparr>requests = [], logged = [], delegated = [],
         result = Inr [(''safe'', JBool True), (''reason'', JStr ''No user content to scan'')]\<rparr>) \<and>
   (openai_extract_user_content messages = Inr text \<and> py_strip text = [] \<longrightarrow>
      openai_scan_messages cl http messages =
        \<lparr>requests = [], logged = [], delegated = [],
         result = Inr [(''safe'', JBool True), (''reason'', JStr ''No user content to scan'')]\<rparr>)"
  unfolding anthropic_scan_messages_def openai_scan_messages_def
  using scan_messages_blank [of anthropic_extract_user_content messages "text"]
        scan_messages_blank [of openai_extract_user_content messages "text"]
  by blast

lemma blank_extracted:
  "anthropic_extract_user_content [[(''role'', JStr ''user''), (''content'', JStr ''  '')]] = Inr ''  ''"
  "openai_extract_user_content [[(''role'', JStr ''user''), (''content'', JStr ''  '')]] = Inr ''  ''"
  "py_strip ''  '' = []"
  by code_simp+

theorem blank_text_is_not_scanned_witness:
  "anthropic_extract_user_content [[(''role'', JStr ''user''), (''content'', JStr ''  '')]] = Inr ''  '' \<and>
   openai_extract_user_content [[(''role'', JStr ''user''), (''content'', JStr ''  '')]] = Inr ''  '' \<and>
   py_strip ''  '' = [] \<and>
   requests (anthropic_scan_messages closed_client (always Timeout)
               [[(''role'', JStr ''user''), (''content'', JStr ''  '')]]) = [] \<and>
   result (anthropic_scan_messages closed_client (always Timeout)
             [[(''role'', JStr ''user''), (''content'', JStr ''  '')]]) =
     Inr [(''safe'', JBool True), (''reason'', JStr ''No user content to scan'')] \<and>
   requests (openai_scan_messages closed_client (always Timeout)
               [[(''role'', JStr ''user''), (''content'', JStr ''  '')]]) = [] \<and>
   result (openai_scan_messages closed_client (always Timeout)
             [[(''role'', JStr ''user''), (''content'', JStr ''  '')]]) =
     Inr [(''safe'', JBool True), (''reason'', JStr ''No user content to scan'')]"
  using blank_text_is_not_scanned
          [of "[[(''role'', JStr ''user''), (''content'', JStr ''  '')]]" "''  ''"
              closed_client "always Timeout"]
        blank_extracted
  by simp

section \<open>The extractors\<close>

lemma anthropic_blocks_spec:
  "anthropic_blocks blocks user_texts = user_texts @ concat (map (block_texts_spec True) blocks)"
  by (induction blocks user_texts rule: anthropic_blocks.induct) simp_all

lemma openai_parts_spec:
  "openai_parts parts user_contents = user_contents @ concat (map (block_texts_spec False) parts)"
  by (induction parts user_contents rule: openai_parts.induct) simp_all

lemma anthropic_messages_spec:
  "anthropic_messages messages user_texts = user_texts @ user_texts_spec True messages"
proof (induction messages arbitrary: user_texts)
  case Nil
  show ?case by (simp add: user_texts_spec_def)
next
  case (Cons msg rest)
  show ?case
    by (cases "dict_get_none msg ''content''")
       (simp_all add: Cons.IH user_texts_spec_def is_user_def anthropic_blocks_spec)
qed

lemma openai_messages_spec:
  "openai_messages messages user_contents = user_contents @ user_texts_spec False messages"
proof (induction messages arbitrary: user_contents)
  case Nil
  show ?case by (simp add: user_texts_spec_def)
next
  case (Cons msg rest)
  show ?case
    by (cases "dict_get_none msg ''content''")
       (simp_all add: Cons.IH user_texts_spec_def is_user_def openai_parts_spec)
qed

lemma extract_refines:
  "anthropic_extract_user_content messages = extract_spec True messages"
  "openai_extract_user_content messages = extract_spec False messages"
  by (simp_all add: anthropic_extract_user_content_def openai_extract_user_content_def
                    extract_spec_def anthropic_messages_spec openai_messages_spec)

lemma extract_spec_no_user:
  assumes "filter is_user messages = []"
  shows "extract_spec plain messages = Inr []"
  using assms by (simp add: extract_spec_def user_texts_spec_def py_join_def)

lemma conversation_extracted:
  "anthropic_extract_user_content conversation = Inr [CHR ''A'', CHR 0x0A, CHR ''C'']"
  "openai_extract_user_content conversation = Inr [CHR ''A'', CHR 0x0A, CHR ''C'']"
  by code_simp+

theorem extractor_plain_string_counterexample:
  "openai_extract_user_content [[(''role'', JStr ''user''), (''content'', JList [JStr ''hello''])]]
     \<noteq> extract_spec True [[(''role'', JStr ''user''), (''content'', JList [JStr ''hello''])]]"
  by code_simp

text \<open>
  C9. The extractor of the Anthropic adapter returns the newline-join, in message order, of
  the texts of the user messages: a string content is itself, a list content gives its plain
  strings and the \<^verbatim>\<open>"text"\<close> of its blocks tagged \<^verbatim>\<open>"text"\<close>, and everything else gives
  nothing. The extractor of the OpenAI adapter does the same but for the plain strings of a
  list content, which it drops. Both extract \<^verbatim>\<open>"A\nC"\<close> from the conversation of the example
  and the empty string from messages none of which is a user's.
\<close>

theorem extractors_refine_spec:
  "anthropic_extract_user_content messages = extract_spec True messages \<and>
   openai_extract_user_content messages = extract_spec False messages \<and>
   anthropic_extract_user_content conversation = Inr [CHR ''A'', CHR 0x0A, CHR ''C''] \<and>
   openai_extract_user_content conversation = Inr [CHR ''A'', CHR 0x0A, CHR ''C''] \<and>
   (filter is_user others = [] \<longrightarrow>
      anthropic_extract_user_content others = Inr [] \<and>
      openai_extract_user_content others = Inr [])"
  using extract_refines conversation_extracted extract_spec_no_user
  by simp

lemma no_user_example:
  "filter is_user [[(''role'', JStr ''assistant''), (''content'', JStr ''B'')],
                   [(''role'', JStr ''system''), (''content'', JStr ''S'')]] = []"
  by (simp add: is_user_def dict_get_none_def dict_get_def)

theorem extractors_refine_spec_witness:
  "filter is_user [[(''role'', JStr ''assistant''), (''content'', JStr ''B'')],
                   [(''role'', JStr ''system''), (''content'', JStr ''S'')]] = [] \<and>
   anthropic_extract_user_content
     [[(''role'', JStr ''assistant''), (''content'', JStr ''B'')],
      [(''role'', JStr ''system''), (''content'', JStr ''S'')]] = Inr [] \<and>
   openai_extract_user_content
     [[(''role'', JStr ''assistant''), (''content'', JStr ''B'')],
      [(''role'', JStr ''system''), (''content'', JStr ''S'')]] = Inr []"
  using extractors_refine_spec
          [of _ "[[(''role'', JStr ''assistant''), (''content'', JStr ''B'')],
                  [(''role'', JStr ''system''), (''content'', JStr ''S'')]]"]
        no_user_example
  by blast

end
